theory Spec2Isabelle
  imports Main
begin

section \<open>Values\<close>

text \<open>
  The script \<^verbatim>\<open>first_try.py\<close> handles Python values produced by \<^verbatim>\<open>json.loads\<close>.
  A Python \<^verbatim>\<open>str\<close> is a \<open>string\<close>, one \<open>char\<close> per code point (code points
  below 256). A \<^verbatim>\<open>dict\<close> is an association list in insertion order; \<^verbatim>\<open>json.loads\<close>
  never yields a repeated key, and a lookup is \<open>map_of\<close>. Python floats are opaque.
\<close>

typedecl pyfloat

datatype json =
    JNull
  | JBool bool
  | JInt int
  | JFloat pyfloat
  | JStr string
  | JArr "json list"
  | JObj "(string \<times> json) list"

text \<open>
  The exceptions of a run. \<open>AttributeError\<close> and \<open>TypeError\<close> are raised by the
  script's own expressions, \<open>JSONDecodeError\<close> by \<^verbatim>\<open>json.loads\<close>,
  \<open>IllegalCharacterError\<close> by the workbook writer, and \<open>ExternalError\<close> stands for
  whatever else a library or the remote client raises (a subclass of \<^verbatim>\<open>Exception\<close>,
  with its message).
\<close>

datatype error =
    AttributeError
  | TypeError
  | JSONDecodeError
  | IllegalCharacterError
  | ExternalError string

section \<open>Flattening one entry (lines 85--93)\<close>

text \<open>
  An expression either raises or yields a value; \<open>and_then\<close> sequences two of them,
  the first exception ending the evaluation.
\<close>

fun and_then :: "error + 'a \<Rightarrow> ('a \<Rightarrow> error + 'b) \<Rightarrow> error + 'b" where
  "and_then (Inl e) f = Inl e"
| "and_then (Inr v) f = f v"

text \<open>\<^verbatim>\<open>x.get(key, default)\<close>: only a \<^verbatim>\<open>dict\<close> has the attribute \<^verbatim>\<open>get\<close>.\<close>

fun py_get :: "json \<Rightarrow> string \<Rightarrow> json \<Rightarrow> error + json" where
  "py_get (JObj kvs) k d = Inr (case map_of kvs k of None \<Rightarrow> d | Some v \<Rightarrow> v)"
| "py_get _ k d = Inl AttributeError"

text \<open>\<^verbatim>\<open>sep.join(items)\<close> on a list of \<^verbatim>\<open>str\<close>.\<close>

fun join :: "string \<Rightarrow> string list \<Rightarrow> string" where
  "join sep [] = []"
| "join sep [x] = x"
| "join sep (x # y # ys) = x @ sep @ join sep (y # ys)"

text \<open>
  The items \<^verbatim>\<open>str.join\<close> sees, all of which must be \<^verbatim>\<open>str\<close>: the elements of a
  list, the characters of a string, the keys of a \<^verbatim>\<open>dict\<close>; any other value is not
  iterable.
\<close>

fun str_items :: "json list \<Rightarrow> error + string list" where
  "str_items [] = Inr []"
| "str_items (JStr s # vs) =
     and_then (str_items vs) (\<lambda>ss. Inr (s # ss))"
| "str_items (_ # vs) = Inl TypeError"

fun py_join :: "string \<Rightarrow> json \<Rightarrow> error + string" where
  "py_join sep (JArr vs) =
     and_then (str_items vs) (\<lambda>ss. Inr (join sep ss))"
| "py_join sep (JStr s) = Inr (join sep (map (\<lambda>c. [c]) s))"
| "py_join sep (JObj kvs) = Inr (join sep (map fst kvs))"
| "py_join sep _ = Inl TypeError"

text \<open>
  A flat record is the \<^verbatim>\<open>dict\<close> literal of lines 85--93: seven keys in the order they
  are written. The values are evaluated in that order and the first exception aborts
  the literal.
\<close>

type_synonym flat_record = "(string \<times> json) list"

definition flat_data :: "json \<Rightarrow> error + flat_record" where
  "flat_data entry =
     and_then (py_get entry ''EstablishmentType'' (JStr '''')) (\<lambda>v1.
     and_then (py_get entry ''HostelName'' (JStr '''')) (\<lambda>v2.
     and_then (py_get entry ''LocationDetails'' (JObj [])) (\<lambda>l1.
     and_then (py_get l1 ''Landmark1'' (JStr '''')) (\<lambda>v3.
     and_then (py_get entry ''LocationDetails'' (JObj [])) (\<lambda>l2.
     and_then (py_get l2 ''Landmark2'' (JStr '''')) (\<lambda>v4.
     and_then (py_get entry ''KeyService'' (JStr '''')) (\<lambda>v5.
     and_then (py_get entry ''AccommodationOptions'' (JStr '''')) (\<lambda>v6.
     and_then (py_get entry ''ContactNumbers'' (JArr [])) (\<lambda>cn.
     and_then (py_join '', '' cn) (\<lambda>v7.
     Inr [(''EstablishmentType'', v1),
          (''HostelName'', v2),
          (''Landmark1'', v3),
          (''Landmark2'', v4),
          (''KeyService'', v5),
          (''AccommodationOptions'', v6),
          (''ContactNumbers'', JStr v7)]))))))))))"

section \<open>The response normalizer (lines 77--82)\<close>

text \<open>
  Line 77 is \<^verbatim>\<open>re.sub(r"^```(?:json)?|```$", "", response.text, flags=re.MULTILINE).strip()\<close>.
  With \<^verbatim>\<open>re.MULTILINE\<close>, \<^verbatim>\<open>^\<close> matches at the start of the text and after every
  newline, and \<^verbatim>\<open>$\<close> at the end of the text and before every newline.
\<close>

definition newline :: char where
  "newline = CHR 0x0A"

definition fence :: string where
  "fence = ''```''"

definition fence_json :: string where
  "fence_json = ''```json''"

definition at_eol :: "string \<Rightarrow> bool" where
  "at_eol s = (case s of [] \<Rightarrow> True | c # _ \<Rightarrow> c = newline)"

text \<open>
  \<open>re_sub_fence bol s\<close> scans \<open>s\<close> from left to right as \<^verbatim>\<open>re.sub\<close> does; \<open>bol\<close>
  says that the scan stands at the beginning of a line. At each position the first
  alternative \<^verbatim>\<open>^```(?:json)?\<close> is tried before the second \<^verbatim>\<open>```$\<close>, the optional
  group is greedy, a match is replaced by the empty string and the scan resumes behind
  it (never at the beginning of a line, since a match ends in a backtick or in
  \<^verbatim>\<open>n\<close>); where nothing matches, one character is copied.
\<close>

function re_sub_fence :: "bool \<Rightarrow> string \<Rightarrow> string" where
  "re_sub_fence bol s =
     (if bol \<and> take 7 s = fence_json then re_sub_fence False (drop 7 s)
      else if bol \<and> take 3 s = fence then re_sub_fence False (drop 3 s)
      else if take 3 s = fence \<and> at_eol (drop 3 s) then re_sub_fence False (drop 3 s)
      else case s of [] \<Rightarrow> [] | c # cs \<Rightarrow> c # re_sub_fence (c = newline) cs)"
  by pat_completeness auto
termination
  by (relation "measure (\<lambda>(bol, s). length s)")
     (auto simp: fence_def fence_json_def dest!: arg_cong [where f = length])

declare re_sub_fence.simps [simp del]

text \<open>
  \<^verbatim>\<open>str.isspace\<close> on the code points below 256, and \<^verbatim>\<open>str.strip()\<close>, which removes
  the whitespace at both ends.
\<close>

definition py_isspace :: "char \<Rightarrow> bool" where
  "py_isspace c = (of_char c \<in> {9, 10, 11, 12, 13, 28, 29, 30, 31, 32, 133, 160 :: nat})"

definition strip :: "string \<Rightarrow> string" where
  "strip s = rev (dropWhile py_isspace (rev (dropWhile py_isspace s)))"

definition clean_text :: "string \<Rightarrow> string" where
  "clean_text text = strip (re_sub_fence True text)"

text \<open>Lines 81--82: a single \<^verbatim>\<open>dict\<close> becomes a one-element list.\<close>

definition normalize_dict :: "json \<Rightarrow> json" where
  "normalize_dict parsed = (case parsed of JObj kvs \<Rightarrow> JArr [parsed] | _ \<Rightarrow> parsed)"

section \<open>Data frames\<close>

text \<open>
  A data frame as \<^verbatim>\<open>pd.DataFrame(all_data)\<close> builds it from a list of \<^verbatim>\<open>dict\<close>s: the
  columns are the keys in the order in which they are first seen, and a row holds the
  record's value in each column (\<open>None\<close> where the record lacks the key).
\<close>

record data_frame =
  columns :: "string list"
  rows :: "json option list list"

definition DataFrame :: "flat_record list \<Rightarrow> data_frame" where
  "DataFrame records =
     (let cols = rev (remdups (rev (concat (map (map fst) records))))
      in \<lparr>columns = cols, rows = map (\<lambda>r. map (map_of r) cols) records\<rparr>)"

section \<open>The environment\<close>

text \<open>
  What the script calls but does not define. \<open>image_open\<close> is \<^verbatim>\<open>Image.open\<close>;
  \<open>generate_content\<close> is the remote call of lines 72--75 followed by \<^verbatim>\<open>response.text\<close>
  (which is \<^verbatim>\<open>None\<close> when the response has no text part), with the fixed model name
  and prompt left implicit and keyed by the position \<open>idx\<close> of the image in the run,
  since the remote model may answer the same image differently; \<open>json_loads\<close> is
  \<^verbatim>\<open>json.loads\<close>; \<open>genai_Client\<close> is the client constructor of line 58. Each either
  raises a subclass of \<^verbatim>\<open>Exception\<close> or returns. \<open>excel_error\<close> is the exception, if
  any, that writing a data frame with \<^verbatim>\<open>pd.ExcelWriter\<close> and \<^verbatim>\<open>df.to_excel\<close> (lines
  106--107) raises for a reason other than an illegal character.
\<close>

record uploaded_image =
  name :: string
  content :: string

datatype image = Image string

record env =
  image_open :: "uploaded_image \<Rightarrow> error + image"
  generate_content :: "nat \<Rightarrow> image \<Rightarrow> error + string option"
  json_loads :: "string \<Rightarrow> error + json"
  genai_Client :: "string option \<Rightarrow> error + unit"
  excel_error :: "data_frame \<Rightarrow> error option"

section \<open>The per-image loop (lines 67--99)\<close>

text \<open>Lines 69--75: the text of the model's response to one image.\<close>

definition response_text :: "env \<Rightarrow> nat \<Rightarrow> uploaded_image \<Rightarrow> error + string option" where
  "response_text env idx uploaded =
     and_then (image_open env uploaded) (\<lambda>img. generate_content env idx img)"

text \<open>
  Lines 77--82: \<^verbatim>\<open>re.sub\<close> raises \<open>TypeError\<close> on \<^verbatim>\<open>None\<close>; otherwise the text is
  cleaned, parsed and normalized.
\<close>

definition normalizer :: "env \<Rightarrow> string \<Rightarrow> error + json" where
  "normalizer env text =
     and_then (json_loads env (clean_text text)) (\<lambda>parsed. Inr (normalize_dict parsed))"

definition parsed_response :: "env \<Rightarrow> string option \<Rightarrow> error + json" where
  "parsed_response env text =
     (case text of None \<Rightarrow> Inl TypeError | Some t \<Rightarrow> normalizer env t)"

text \<open>
  \<^verbatim>\<open>for entry in parsed\<close>: a list yields its elements, a string its characters, a
  \<^verbatim>\<open>dict\<close> its keys, and nothing else that \<^verbatim>\<open>json.loads\<close> returns is iterable.
  \<^verbatim>\<open>len(parsed)\<close> is defined on the same values.
\<close>

fun py_iter :: "json \<Rightarrow> error + json list" where
  "py_iter (JArr vs) = Inr vs"
| "py_iter (JStr s) = Inr (map (\<lambda>c. JStr [c]) s)"
| "py_iter (JObj kvs) = Inr (map (\<lambda>kv. JStr (fst kv)) kvs)"
| "py_iter _ = Inl TypeError"

fun py_len :: "json \<Rightarrow> error + nat" where
  "py_len (JArr vs) = Inr (length vs)"
| "py_len (JStr s) = Inr (length s)"
| "py_len (JObj kvs) = Inr (length kvs)"
| "py_len _ = Inl TypeError"

text \<open>
  Lines 84--94. \<open>all_data\<close> is the list the loop appends to; when \<open>flat_data\<close> raises,
  the loop is left with the exception and with everything appended so far.
\<close>

fun for_entries :: "json list \<Rightarrow> flat_record list \<Rightarrow> error option \<times> flat_record list" where
  "for_entries [] all_data = (None, all_data)"
| "for_entries (entry # rest) all_data =
     (case flat_data entry of
        Inl e \<Rightarrow> (Some e, all_data)
      | Inr r \<Rightarrow> for_entries rest (all_data @ [r]))"

text \<open>
  Lines 81--96 on a parsed value: the entries are flattened and appended, then the
  success message reports \<^verbatim>\<open>len(parsed)\<close>. The result is the exception or that number,
  and the new \<open>all_data\<close>.
\<close>

definition flatten_parsed :: "json \<Rightarrow> flat_record list \<Rightarrow> (error + nat) \<times> flat_record list" where
  "flatten_parsed parsed all_data =
     (case py_iter parsed of
        Inl e \<Rightarrow> (Inl e, all_data)
      | Inr entries \<Rightarrow>
          (let (raised, all_data') = for_entries entries all_data
           in (case raised of Some e \<Rightarrow> Inl e | None \<Rightarrow> py_len parsed, all_data')))"

text \<open>The body of the \<^verbatim>\<open>try\<close> statement, lines 69--96.\<close>

definition try_body ::
  "env \<Rightarrow> nat \<Rightarrow> uploaded_image \<Rightarrow> flat_record list \<Rightarrow> (error + nat) \<times> flat_record list" where
  "try_body env idx uploaded all_data =
     (case and_then (response_text env idx uploaded) (parsed_response env) of
        Inl e \<Rightarrow> (Inl e, all_data)
      | Inr parsed \<Rightarrow> flatten_parsed parsed all_data)"

section \<open>The user interface and the export (lines 56--121)\<close>

text \<open>
  A workbook is a list of sheets; \<^verbatim>\<open>to_excel(writer, index=False, sheet_name=...)\<close>
  writes one sheet with the column names as header and the rows below. The writer
  (openpyxl) refuses a string cell that holds one of the control characters 0--8, 11,
  12 or 14--31 and raises \<open>IllegalCharacterError\<close>; a \<^verbatim>\<open>str\<close> value reaches it
  as it is, while a list or a \<^verbatim>\<open>dict\<close> is written as its \<^verbatim>\<open>str()\<close>, in which
  control characters are escaped. Whatever else the writer may raise on a frame is the
  environment's \<open>excel_error\<close>.
\<close>

definition illegal_character :: "char \<Rightarrow> bool" where
  "illegal_character c =
     (let n = (of_char c :: nat) in n \<le> 8 \<or> n = 11 \<or> n = 12 \<or> (14 \<le> n \<and> n \<le> 31))"

definition illegal_cell :: "json option \<Rightarrow> bool" where
  "illegal_cell cell =
     (case cell of Some (JStr s) \<Rightarrow> list_ex illegal_character s | _ \<Rightarrow> False)"

definition illegal_frame :: "data_frame \<Rightarrow> bool" where
  "illegal_frame df =
     (list_ex (list_ex illegal_character) (columns df) \<or>
      list_ex (list_ex illegal_cell) (rows df))"

record sheet =
  sheet_name :: string
  header :: "string list"
  body :: "json option list list"

definition to_excel :: "env \<Rightarrow> data_frame \<Rightarrow> string \<Rightarrow> error + sheet list" where
  "to_excel env df sheet =
     (if illegal_frame df then Inl IllegalCharacterError
      else (case excel_error env df of
              Some e \<Rightarrow> Inl e
            | None \<Rightarrow> Inr [\<lparr>sheet_name = sheet, header = columns df, body = rows df\<rparr>]))"

text \<open>
  What the page shows below the upload widget, in order. The page header of lines
  11--13 is the same in every run, and the spinner of line 66 only frames the loop;
  neither is recorded. \<open>St_exception\<close> is the box in which the page shows an exception
  that nothing in the script catches; the script run ends there.
\<close>

datatype ui_event =
    St_success nat string
  | St_warning string error
  | St_subheader
  | St_dataframe data_frame
  | St_download_button "sheet list" string string
  | St_error_no_data
  | St_error_client error
  | St_exception error
  | St_info

record state =
  all_data :: "flat_record list"
  ui :: "ui_event list"

text \<open>One iteration of line 67: the \<^verbatim>\<open>try\<close> body, then line 96 or line 99.\<close>

definition process_image :: "env \<Rightarrow> nat \<times> uploaded_image \<Rightarrow> state \<Rightarrow> state" where
  "process_image env iu st =
     (case try_body env (fst iu) (snd iu) (all_data st) of
        (Inr n, all_data') \<Rightarrow>
          \<lparr>all_data = all_data', ui = ui st @ [St_success n (name (snd iu))]\<rparr>
      | (Inl e, all_data') \<Rightarrow>
          \<lparr>all_data = all_data', ui = ui st @ [St_warning (name (snd iu)) e]\<rparr>)"

text \<open>Lines 64--99: \<^verbatim>\<open>all_data = []\<close>, then the loop over \<^verbatim>\<open>enumerate(uploaded_images, start=1)\<close>.\<close>

definition process_all :: "env \<Rightarrow> uploaded_image list \<Rightarrow> state" where
  "process_all env uploaded_images =
     fold (process_image env) (enumerate 1 uploaded_images) \<lparr>all_data = [], ui = []\<rparr>"

text \<open>
  Lines 102--119. The workbook is written (lines 105--107) before anything is shown,
  and outside any \<^verbatim>\<open>try\<close>: when the writer raises, lines 109--117 are not reached.
\<close>

definition export :: "env \<Rightarrow> state \<Rightarrow> ui_event list" where
  "export env st =
     (if all_data st \<noteq> []
      then (let df = DataFrame (all_data st)
            in (case to_excel env df ''Extracted Data'' of
                  Inl e \<Rightarrow> ui st @ [St_exception e]
                | Inr output \<Rightarrow>
                    ui st @ [St_subheader, St_dataframe df,
                      St_download_button output ''Combined_Extracted_Data.xlsx''
                        ''application/vnd.openxmlformats-officedocument.spreadsheetml.sheet'']))
      else ui st @ [St_error_no_data])"

text \<open>
  Lines 16--21: \<^verbatim>\<open>os.getenv\<close> is \<^verbatim>\<open>None\<close> for an unset variable, and \<^verbatim>\<open>a or b\<close> is
  \<open>a\<close> when \<open>a\<close> is truthy (a non-empty string) and \<open>b\<close> otherwise.
\<close>

fun truthy :: "string option \<Rightarrow> bool" where
  "truthy None = False"
| "truthy (Some s) = (s \<noteq> [])"

definition py_or :: "string option \<Rightarrow> string option \<Rightarrow> string option" where
  "py_or a b = (if truthy a then a else b)"

definition api_key :: "(string \<rightharpoonup> string) \<Rightarrow> string option" where
  "api_key getenv =
     py_or (py_or (py_or (getenv ''GENAI_API_KEY'') (getenv ''GEMINI_API_KEY''))
                  (getenv ''GOOGLE_API_KEY''))
           (getenv ''API_KEY'')"

text \<open>
  Lines 56--121, what one script run shows below the upload widget, given the
  environment variables, the uploaded files and whether the button was pressed. After a
  failed client construction \<^verbatim>\<open>st.stop()\<close> ends the run.
\<close>

definition main :: "env \<Rightarrow> (string \<rightharpoonup> string) \<Rightarrow> uploaded_image list \<Rightarrow> bool \<Rightarrow> ui_event list" where
  "main env getenv uploaded_images button =
     (if uploaded_images \<noteq> [] \<and> truthy (api_key getenv)
      then (case genai_Client env (api_key getenv) of
              Inl e \<Rightarrow> [St_error_client e]
            | Inr client \<Rightarrow>
                (if button then export env (process_all env uploaded_images) else []))
      else [St_info])"

section \<open>Code fences around a response\<close>


section \<open>The quantities the properties speak of\<close>

text \<open>
  The flat records of the entries that are flattened before the first one that raises
  (all of them when none raises), and the exception of that first one.
\<close>

fun flat_prefix :: "json list \<Rightarrow> flat_record list" where
  "flat_prefix [] = []"
| "flat_prefix (entry # rest) =
     (case flat_data entry of Inl e \<Rightarrow> [] | Inr r \<Rightarrow> r # flat_prefix rest)"

fun first_error :: "json list \<Rightarrow> error option" where
  "first_error [] = None"
| "first_error (entry # rest) =
     (case flat_data entry of Inl e \<Rightarrow> Some e | Inr r \<Rightarrow> first_error rest)"

text \<open>
  The entries that line 84 iterates over for the image at position \<open>idx\<close>, or the
  exception raised before the loop is entered (open, model call, cleaning, parsing,
  iteration).
\<close>

definition entries_of :: "env \<Rightarrow> nat \<times> uploaded_image \<Rightarrow> error + json list" where
  "entries_of env iu =
     and_then (and_then (response_text env (fst iu) (snd iu)) (parsed_response env)) py_iter"

text \<open>
  An image fails when something raises before the loop or an entry raises in it;
  otherwise it succeeds. \<open>num_entries\<close> is its number of parsed entries and \<open>rows_of\<close>
  the rows it leaves in the table.
\<close>

definition image_fails :: "env \<Rightarrow> nat \<times> uploaded_image \<Rightarrow> bool" where
  "image_fails env iu =
     (case entries_of env iu of Inl e \<Rightarrow> True | Inr es \<Rightarrow> first_error es \<noteq> None)"

definition image_succeeds :: "env \<Rightarrow> nat \<times> uploaded_image \<Rightarrow> bool" where
  "image_succeeds env iu = (\<not> image_fails env iu)"

definition num_entries :: "env \<Rightarrow> nat \<times> uploaded_image \<Rightarrow> nat" where
  "num_entries env iu = (case entries_of env iu of Inl e \<Rightarrow> 0 | Inr es \<Rightarrow> length es)"

definition rows_of :: "env \<Rightarrow> nat \<times> uploaded_image \<Rightarrow> flat_record list" where
  "rows_of env iu = (case entries_of env iu of Inl e \<Rightarrow> [] | Inr es \<Rightarrow> flat_prefix es)"

text \<open>The message an image ends with.\<close>

definition event_of :: "env \<Rightarrow> nat \<times> uploaded_image \<Rightarrow> ui_event" where
  "event_of env iu =
     (case entries_of env iu of
        Inl e \<Rightarrow> St_warning (name (snd iu)) e
      | Inr es \<Rightarrow>
          (case first_error es of
             Some e \<Rightarrow> St_warning (name (snd iu)) e
           | None \<Rightarrow> St_success (length es) (name (snd iu))))"

fun is_warning :: "ui_event \<Rightarrow> bool" where
  "is_warning (St_warning n e) = True"
| "is_warning _ = False"

fun is_success :: "ui_event \<Rightarrow> bool" where
  "is_success (St_success n f) = True"
| "is_success _ = False"

fun is_download :: "ui_event \<Rightarrow> bool" where
  "is_download (St_download_button d f m) = True"
| "is_download _ = False"


text \<open>
  The \<^verbatim>\<open>ContactNumbers\<close> column of the flat record of an entry, when flattening
  succeeds; and whether the entry's \<^verbatim>\<open>LocationDetails\<close> is absent or a mapping, which
  is what the two landmark lookups of lines 88--89 need.
\<close>

definition contact_column :: "json \<Rightarrow> error + json option" where
  "contact_column entry = and_then (flat_data entry) (\<lambda>r. Inr (map_of r ''ContactNumbers''))"

definition location_is_mapping :: "(string \<times> json) list \<Rightarrow> bool" where
  "location_is_mapping kvs =
     (case map_of kvs ''LocationDetails'' of
        None \<Rightarrow> True
      | Some (JObj l) \<Rightarrow> True
      | Some _ \<Rightarrow> False)"

text \<open>
  The API key in the specification's words: the value of the first variable, in the
  fixed order, whose value is non-empty.
\<close>

definition key_precedence :: "string list" where
  "key_precedence = [''GENAI_API_KEY'', ''GEMINI_API_KEY'', ''GOOGLE_API_KEY'', ''API_KEY'']"

definition first_nonempty :: "(string \<rightharpoonup> string) \<Rightarrow> string option" where
  "first_nonempty getenv =
     (case filter (\<lambda>k. truthy (getenv k)) key_precedence of
        [] \<Rightarrow> None
      | k # _ \<Rightarrow> getenv k)"



definition reaches_loop :: "env \<Rightarrow> (string \<rightharpoonup> string) \<Rightarrow> uploaded_image list \<Rightarrow> bool \<Rightarrow> bool" where
  "reaches_loop env getenv uploaded_images button =
     (uploaded_images \<noteq> [] \<and> truthy (api_key getenv) \<and>
      genai_Client env (api_key getenv) = Inr () \<and> button)"


definition writer_error :: "env \<Rightarrow> data_frame \<Rightarrow> error option" where
  "writer_error env df =
     (if illegal_frame df then Some IllegalCharacterError else excel_error env df)"

fun is_error_no_data :: "ui_event \<Rightarrow> bool" where
  "is_error_no_data St_error_no_data = True"
| "is_error_no_data _ = False"

section \<open>An environment for examples\<close>

text \<open>
  A small environment on which the script can be run by hand: every file opens, the
  remote model answers with the file's content as its text, the client is constructed,
  the workbook writer raises for illegal characters only, and \<open>demo_loads\<close> is
  \<^verbatim>\<open>json.loads\<close> on the texts \<^verbatim>\<open>[{}, 5]\<close>, \<^verbatim>\<open>[{}]\<close>, \<^verbatim>\<open>{}\<close>, \<^verbatim>\<open>[1]\<close> and
  \<^verbatim>\<open>[{"HostelName": "\f"}]\<close>, whose string is a form feed (any other text, such as
  \<^verbatim>\<open>x\<close> or \<^verbatim>\<open>json[1]\<close>, is rejected here, as \<^verbatim>\<open>json.loads\<close> rejects these two).
  \<open>empty_row\<close> is the flat record of the empty entry \<^verbatim>\<open>{}\<close>.
\<close>

definition form_feed_text :: string where
  "form_feed_text = ''[{\"HostelName\": \"'' @ [CHR 0x5C] @ ''f\"}]''"

definition demo_loads :: "string \<Rightarrow> error + json" where
  "demo_loads s =
     (if s = ''[{}, 5]'' then Inr (JArr [JObj [], JInt 5])
      else if s = ''[{}]'' then Inr (JArr [JObj []])
      else if s = ''{}'' then Inr (JObj [])
      else if s = ''[1]'' then Inr (JArr [JInt 1])
      else if s = form_feed_text then Inr (JArr [JObj [(''HostelName'', JStr [CHR 0x0C])]])
      else Inl JSONDecodeError)"

definition demo_env :: env where
  "demo_env =
     \<lparr>image_open = (\<lambda>uploaded. Inr (Image (content uploaded))),
      generate_content = (\<lambda>idx img. case img of Image c \<Rightarrow> Inr (Some c)),
      json_loads = demo_loads,
      genai_Client = (\<lambda>key. Inr ()),
      excel_error = (\<lambda>df. None)\<rparr>"

definition demo_image :: "string \<Rightarrow> uploaded_image" where
  "demo_image t = \<lparr>name = ''a.png'', content = t\<rparr>"

definition empty_row :: flat_record where
  "empty_row = [(''EstablishmentType'', JStr []), (''HostelName'', JStr []),
     (''Landmark1'', JStr []), (''Landmark2'', JStr []), (''KeyService'', JStr []),
     (''AccommodationOptions'', JStr []), (''ContactNumbers'', JStr [])]"

text \<open>Environment variables for an example: the first is set but empty, the second unset.\<close>

definition demo_getenv :: "string \<rightharpoonup> string" where
  "demo_getenv = [''GENAI_API_KEY'' \<mapsto> [], ''GOOGLE_API_KEY'' \<mapsto> ''k2'', ''API_KEY'' \<mapsto> ''k3'']"


section \<open>Facts about the normalizer\<close>





































section \<open>Facts about the loop and the export\<close>

lemma for_entries_eq: "for_entries es d = (first_error es, d @ flat_prefix es)"
  by (induction es arbitrary: d) (auto split: sum.splits)

lemma py_len_iter: "py_iter p = Inr es \<Longrightarrow> py_len p = Inr (length es)"
  by (cases p) auto

lemma flatten_parsed_eq:
  "flatten_parsed p d =
     (case py_iter p of
        Inl e \<Rightarrow> (Inl e, d)
      | Inr es \<Rightarrow> (case first_error es of Some e \<Rightarrow> Inl e | None \<Rightarrow> Inr (length es),
                   d @ flat_prefix es))"
  by (auto simp: flatten_parsed_def for_entries_eq py_len_iter split: sum.splits option.splits)

lemma and_then_cases:
  "and_then x f = (case x of Inl e \<Rightarrow> Inl e | Inr v \<Rightarrow> f v)"
  by (cases x) simp_all

lemma try_body_eq:
  "try_body env idx up d =
     (case entries_of env (idx, up) of
        Inl e \<Rightarrow> (Inl e, d)
      | Inr es \<Rightarrow> (case first_error es of Some e \<Rightarrow> Inl e | None \<Rightarrow> Inr (length es),
                   d @ flat_prefix es))"
  by (auto simp: try_body_def entries_of_def flatten_parsed_eq and_then_cases split: sum.splits)

lemma process_image_eq:
  "process_image env iu st =
     \<lparr>all_data = all_data st @ rows_of env iu, ui = ui st @ [event_of env iu]\<rparr>"
  by (cases iu)
     (auto simp: process_image_def try_body_eq rows_of_def event_of_def
           split: sum.splits option.splits)

lemma fold_process_image:
  "fold (process_image env) xs st =
     \<lparr>all_data = all_data st @ concat (map (rows_of env) xs),
      ui = ui st @ map (event_of env) xs\<rparr>"
  by (induction xs arbitrary: st) (simp_all add: process_image_eq)

lemma process_all_eq:
  "process_all env ups =
     \<lparr>all_data = concat (map (rows_of env) (enumerate 1 ups)),
      ui = map (event_of env) (enumerate 1 ups)\<rparr>"
  by (simp add: process_all_def fold_process_image)

lemma is_warning_event: "is_warning (event_of env iu) = image_fails env iu"
  by (auto simp: event_of_def image_fails_def split: sum.splits option.splits)

lemma is_success_event: "is_success (event_of env iu) = image_succeeds env iu"
  by (auto simp: event_of_def image_fails_def image_succeeds_def split: sum.splits option.splits)

lemma length_flat_prefix: "first_error es = None \<Longrightarrow> length (flat_prefix es) = length es"
  by (induction es) (auto split: sum.splits)

lemma rows_of_success: "image_succeeds env iu \<Longrightarrow> length (rows_of env iu) = num_entries env iu"
  by (auto simp: image_succeeds_def image_fails_def rows_of_def num_entries_def length_flat_prefix
           split: sum.splits)










lemma clean_text_demo:
  "clean_text ''[{}, 5]'' = ''[{}, 5]''" "clean_text ''[{}]'' = ''[{}]''" "clean_text ''{}'' = ''{}''"
  by code_simp+

lemma flat_data_empty: "flat_data (JObj []) = Inr empty_row"
  by (simp add: flat_data_def empty_row_def)

lemma flat_data_int: "flat_data (JInt n) = Inl AttributeError"
  by (simp add: flat_data_def)

lemma demo_parsed:
  "and_then (response_text demo_env idx (demo_image ''[{}, 5]'')) (parsed_response demo_env)
     = Inr (JArr [JObj [], JInt 5])"
  by (simp add: response_text_def parsed_response_def normalizer_def demo_env_def demo_image_def
        demo_loads_def form_feed_text_def clean_text_demo normalize_dict_def)

lemma demo_entries: "entries_of demo_env (idx, demo_image ''[{}, 5]'') = Inr [JObj [], JInt 5]"
  by (simp add: entries_of_def demo_parsed)

lemma demo_fails: "image_fails demo_env (idx, demo_image ''[{}, 5]'')"
  by (simp add: image_fails_def demo_entries flat_data_empty flat_data_int)

lemma demo_rows: "rows_of demo_env (idx, demo_image ''[{}, 5]'') = [empty_row]"
  by (simp add: rows_of_def demo_entries flat_data_empty flat_data_int)

lemma demo_name: "name (demo_image t) = ''a.png''"
  by (simp add: demo_image_def)

lemma demo_event:
  "event_of demo_env (idx, demo_image ''[{}, 5]'') = St_warning ''a.png'' AttributeError"
  by (simp add: event_of_def demo_entries flat_data_empty flat_data_int demo_name)

lemma demo_process_all:
  "process_all demo_env [demo_image ''[{}, 5]'']
     = \<lparr>all_data = [empty_row], ui = [St_warning ''a.png'' AttributeError]\<rparr>"
  by (simp add: process_all_eq demo_rows demo_event)

lemma sum_list_split:
  "sum_list (map f xs) = sum_list (map f (filter P xs)) + sum_list (map f (filter (\<lambda>x. \<not> P x) xs))"
  for f :: "'a \<Rightarrow> nat"
  by (induction xs) simp_all

lemma image_succeeds_Not: "image_succeeds env = (\<lambda>iu. \<not> image_fails env iu)"
  by (simp add: image_succeeds_def fun_eq_iff)

lemma flat_prefix_append_error:
  "map flat_data pre = map Inr rs \<Longrightarrow> flat_data entry = Inl e \<Longrightarrow>
   flat_prefix (pre @ entry # post) = rs \<and> first_error (pre @ entry # post) = Some e"
  by (induction pre arbitrary: rs) auto

lemma enumerate_middle:
  "enumerate n (before @ up # after)
     = enumerate n before @ (n + length before, up) # enumerate (Suc (n + length before)) after"
  by (simp add: enumerate_append_eq)

lemma event_of_no_download: "\<not> is_download (event_of env iu)"
  by (auto simp: event_of_def split: sum.splits option.splits)

lemma event_of_no_error: "St_error_no_data \<noteq> event_of env iu"
  by (auto simp: event_of_def split: sum.splits option.splits)

lemma ui_process_all_no_download: "filter is_download (ui (process_all env ups)) = []"
  by (simp add: process_all_eq filter_empty_conv event_of_no_download)

lemma ui_process_all_no_error: "St_error_no_data \<notin> set (ui (process_all env ups))"
  by (auto simp: process_all_eq event_of_no_error)

lemma length_ui_process_all: "length (ui (process_all env ups)) = length ups"
  by (simp add: process_all_eq)

lemma export_empty: "all_data st = [] \<Longrightarrow> export env st = ui st @ [St_error_no_data]"
  by (simp add: export_def)

lemma py_get_location:
  "location_is_mapping kvs \<Longrightarrow>
   \<exists>l. py_get (JObj kvs) ''LocationDetails'' (JObj []) = Inr (JObj l)"
  by (auto simp: location_is_mapping_def split: option.splits json.splits)

lemma contact_column_eq:
  assumes "location_is_mapping kvs"
  shows "contact_column (JObj kvs)
    = and_then (py_join '', '' (case map_of kvs ''ContactNumbers'' of None \<Rightarrow> JArr [] | Some v \<Rightarrow> v))
        (\<lambda>v. Inr (Some (JStr v)))"
proof -
  from py_get_location [OF assms] obtain l
    where l: "py_get (JObj kvs) ''LocationDetails'' (JObj []) = Inr (JObj l)" by blast
  show ?thesis
    unfolding contact_column_def flat_data_def l
    by (cases "py_join '', '' (case map_of kvs ''ContactNumbers'' of None \<Rightarrow> JArr [] | Some v \<Rightarrow> v)")
       simp_all
qed

lemma str_items_strs: "str_items (map JStr ss) = Inr ss"
  by (induction ss) simp_all

lemma flatten_single_object:
  "flatten_parsed (normalize_dict (JObj kvs)) table
     = (case flat_data (JObj kvs) of
          Inl e \<Rightarrow> (Inl e, table)
        | Inr r \<Rightarrow> (Inr 1, table @ [r]))"
  "flatten_parsed (normalize_dict (JArr [JObj kvs])) table
     = (case flat_data (JObj kvs) of
          Inl e \<Rightarrow> (Inl e, table)
        | Inr r \<Rightarrow> (Inr 1, table @ [r]))"
  by (simp_all add: normalize_dict_def flatten_parsed_def split: sum.splits)

lemma try_body_parsed:
  "response_text env idx up = Inr (Some t) \<Longrightarrow> json_loads env (clean_text t) = Inr parsed \<Longrightarrow>
   try_body env idx up table = flatten_parsed (normalize_dict parsed) table"
  by (simp add: try_body_def parsed_response_def normalizer_def)

lemma demo_response: "response_text demo_env idx (demo_image t) = Inr (Some t)"
  by (simp add: response_text_def demo_env_def demo_image_def)

lemma demo_json_loads: "json_loads demo_env = demo_loads"
  by (simp add: demo_env_def)

lemma clean_text_undecodable: "clean_text ''x'' = ''x''"
  by code_simp

lemma demo_undecodable:
  "process_all demo_env [demo_image ''x'']
     = \<lparr>all_data = [], ui = [St_warning ''a.png'' JSONDecodeError]\<rparr>"
proof -
  have "entries_of demo_env (idx, demo_image ''x'') = Inl JSONDecodeError" for idx
    by (simp add: entries_of_def demo_response parsed_response_def normalizer_def
          demo_json_loads clean_text_undecodable demo_loads_def form_feed_text_def)
  then show ?thesis
    by (simp add: process_all_eq rows_of_def event_of_def demo_name)
qed




lemma to_excel_eq:
  "to_excel env df sheet =
     (case writer_error env df of
        Some e \<Rightarrow> Inl e
      | None \<Rightarrow> Inr [\<lparr>sheet_name = sheet, header = columns df, body = rows df\<rparr>])"
  by (simp add: to_excel_def writer_error_def)

lemma export_written:
  "all_data st \<noteq> [] \<Longrightarrow> writer_error env (DataFrame (all_data st)) = None \<Longrightarrow>
   export env st = ui st @ [St_subheader, St_dataframe (DataFrame (all_data st)),
     St_download_button
       [\<lparr>sheet_name = ''Extracted Data'', header = columns (DataFrame (all_data st)),
         body = rows (DataFrame (all_data st))\<rparr>]
       ''Combined_Extracted_Data.xlsx''
       ''application/vnd.openxmlformats-officedocument.spreadsheetml.sheet'']"
  by (simp add: export_def Let_def to_excel_eq)

lemma export_raises:
  "all_data st \<noteq> [] \<Longrightarrow> writer_error env (DataFrame (all_data st)) = Some e \<Longrightarrow>
   export env st = ui st @ [St_exception e]"
  by (simp add: export_def Let_def to_excel_eq)

lemma main_reaches_loop:
  "reaches_loop env getenv ups button \<Longrightarrow>
   main env getenv ups button = export env (process_all env ups)"
  by (simp add: reaches_loop_def main_def)

lemma main_without_loop:
  "\<not> reaches_loop env getenv ups button \<Longrightarrow>
   filter is_download (main env getenv ups button) = [] \<and>
   filter is_error_no_data (main env getenv ups button) = []"
  by (auto simp: reaches_loop_def main_def split: sum.splits)

lemma event_of_not_error_no_data: "\<not> is_error_no_data (event_of env iu)"
  by (auto simp: event_of_def split: sum.splits option.splits)

lemma ui_process_all_no_error_no_data:
  "filter is_error_no_data (ui (process_all env ups)) = []"
  by (simp add: process_all_eq filter_empty_conv event_of_not_error_no_data)

lemma export_tail:
  "\<exists>tl. export env st = ui st @ tl \<and> length (filter is_download tl) \<le> 1 \<and>
     length (filter is_error_no_data tl) \<le> 1"
proof (cases "all_data st = []")
  case True
  then show ?thesis by (simp add: export_empty)
next
  case False
  show ?thesis
  proof (cases "writer_error env (DataFrame (all_data st))")
    case None
    from export_written [OF False None] show ?thesis by simp
  next
    case (Some e)
    from export_raises [OF False Some] show ?thesis by simp
  qed
qed

lemma demo_reaches_loop: "ups \<noteq> [] \<Longrightarrow> reaches_loop demo_env demo_getenv ups True"
  by (simp add: reaches_loop_def api_key_def py_or_def demo_getenv_def demo_env_def)









section \<open>Properties\<close>

text \<open>
  C1 (as amended). For every run over \<open>N\<close> uploaded images of which \<open>M\<close> fail, the final
  table is, in processing order, the rows of the images: for a successful image one row
  per parsed entry, for a failed image the rows of the entries that were flattened
  before the exception (none when the exception comes from open, model call,
  normalization or the first entry). So the table has the sum of the numbers of parsed
  entries of the \<open>N - M\<close> successful images plus the rows the failed images left, and
  exactly \<open>M\<close> warnings and \<open>N - M\<close> success messages are reported.
\<close>

theorem process_all_rows_and_warnings:
  "all_data (process_all env ups) = concat (map (rows_of env) (enumerate 1 ups)) \<and>
   length (filter is_warning (ui (process_all env ups)))
     = length (filter (image_fails env) (enumerate 1 ups)) \<and>
   length (filter is_success (ui (process_all env ups)))
     = length ups - length (filter (image_fails env) (enumerate 1 ups)) \<and>
   length (all_data (process_all env ups))
     = sum_list (map (num_entries env) (filter (image_succeeds env) (enumerate 1 ups)))
     + sum_list (map (\<lambda>iu. length (rows_of env iu)) (filter (image_fails env) (enumerate 1 ups)))"
proof -
  let ?xs = "enumerate 1 ups"
  have warn: "length (filter is_warning (map (event_of env) ?xs))
      = length (filter (image_fails env) ?xs)"
    by (simp add: filter_map comp_def is_warning_event)
  have "length (filter is_success (map (event_of env) ?xs))
      = length (filter (image_succeeds env) ?xs)"
    by (simp add: filter_map comp_def is_success_event)
  also have "\<dots> = length ?xs - length (filter (image_fails env) ?xs)"
    using sum_length_filter_compl [of "image_fails env" ?xs]
    by (simp add: image_succeeds_Not)
  finally have succ: "length (filter is_success (map (event_of env) ?xs))
      = length ups - length (filter (image_fails env) ?xs)"
    by simp
  have "length (concat (map (rows_of env) ?xs))
      = sum_list (map (\<lambda>iu. length (rows_of env iu)) ?xs)"
    by (simp add: length_concat comp_def)
  also have "\<dots> = sum_list (map (\<lambda>iu. length (rows_of env iu)) (filter (image_succeeds env) ?xs))
      + sum_list (map (\<lambda>iu. length (rows_of env iu)) (filter (image_fails env) ?xs))"
    using sum_list_split [where f = "\<lambda>iu. length (rows_of env iu)" and P = "image_fails env"
        and xs = ?xs]
    by (simp add: image_succeeds_Not)
  also have "sum_list (map (\<lambda>iu. length (rows_of env iu)) (filter (image_succeeds env) ?xs))
      = sum_list (map (num_entries env) (filter (image_succeeds env) ?xs))"
    by (rule arg_cong [where f = sum_list], rule map_cong [OF refl]) (simp add: rows_of_success)
  finally have rows: "length (concat (map (rows_of env) ?xs))
      = sum_list (map (num_entries env) (filter (image_succeeds env) ?xs))
      + sum_list (map (\<lambda>iu. length (rows_of env iu)) (filter (image_fails env) ?xs))" .
  show ?thesis
    using warn succ rows by (simp add: process_all_eq)
qed

text \<open>
  Counterexample to C1 as first stated (a failed image contributes no rows, so the table
  has exactly the entries of the successful images): the claim fails for one image whose response is
  \<^verbatim>\<open>[{}, 5]\<close>: the entry \<^verbatim>\<open>{}\<close> is flattened and appended, then \<^verbatim>\<open>5\<close> has no
  \<^verbatim>\<open>get\<close> and the image fails. One image, one failure, no successful image, yet one
  row.
\<close>

theorem failed_image_rows_counterexample:
  "image_fails demo_env (1, demo_image ''[{}, 5]'') \<and>
   enumerate 1 [demo_image ''[{}, 5]''] = [(1, demo_image ''[{}, 5]'')] \<and>
   sum_list (map (num_entries demo_env)
      (filter (image_succeeds demo_env) (enumerate 1 [demo_image ''[{}, 5]'']))) = 0 \<and>
   length (all_data (process_all demo_env [demo_image ''[{}, 5]''])) = 1"
  by (simp add: demo_fails demo_process_all image_succeeds_def)




text \<open>
  C3. For every run that gets to the loop and in which the accumulated record list is
  empty after it, no spreadsheet download is offered and the error message is shown, as
  the last thing on the page. In every run at most one download button and at most one
  such error message are shown; in a run that gets to the loop they come after the
  messages of the loop, one per image, none of which is a download button or that error
  message; and a run that does not get to the loop shows neither.
\<close>

theorem export_after_loop:
  "(reaches_loop env getenv ups button \<and> all_data (process_all env ups) = [] \<longrightarrow>
      main env getenv ups button = ui (process_all env ups) @ [St_error_no_data] \<and>
      \<not> list_ex is_download (main env getenv ups button)) \<and>
   length (filter is_download (main env getenv ups button)) \<le> 1 \<and>
   length (filter is_error_no_data (main env getenv ups button)) \<le> 1 \<and>
   (reaches_loop env getenv ups button \<longrightarrow>
      take (length ups) (main env getenv ups button) = ui (process_all env ups) \<and>
      length (ui (process_all env ups)) = length ups \<and>
      \<not> list_ex is_download (ui (process_all env ups)) \<and>
      \<not> list_ex is_error_no_data (ui (process_all env ups))) \<and>
   (\<not> reaches_loop env getenv ups button \<longrightarrow>
      \<not> list_ex is_download (main env getenv ups button) \<and>
      \<not> list_ex is_error_no_data (main env getenv ups button))"
proof -
  let ?st = "process_all env ups"
  let ?shown = "main env getenv ups button"
  have nd: "filter is_download (ui ?st) = []"
    by (rule ui_process_all_no_download)
  have ne: "filter is_error_no_data (ui ?st) = []"
    by (rule ui_process_all_no_error_no_data)
  have len: "length (ui ?st) = length ups"
    by (rule length_ui_process_all)
  show ?thesis
  proof (cases "reaches_loop env getenv ups button")
    case True
    then have shown: "?shown = export env ?st"
      by (rule main_reaches_loop)
    from export_tail [of env ?st] obtain tl
      where tl: "export env ?st = ui ?st @ tl" "length (filter is_download tl) \<le> 1"
        "length (filter is_error_no_data tl) \<le> 1"
      by blast
    have empty: "all_data ?st = [] \<Longrightarrow>
        ?shown = ui ?st @ [St_error_no_data] \<and> \<not> list_ex is_download ?shown"
      using nd by (simp add: shown export_empty list_ex_iff filter_empty_conv)
    have "take (length ups) ?shown = ui ?st"
      using len by (simp add: shown tl(1))
    moreover have "length (filter is_download ?shown) \<le> 1"
      "length (filter is_error_no_data ?shown) \<le> 1"
      using tl(2,3) nd ne by (simp_all add: shown tl(1))
    moreover have "\<not> list_ex is_download (ui ?st)" "\<not> list_ex is_error_no_data (ui ?st)"
      using nd ne by (simp_all add: list_ex_iff filter_empty_conv)
    ultimately show ?thesis
      using True empty len by blast
  next
    case False
    from main_without_loop [OF this] show ?thesis
      using False by (simp add: list_ex_iff filter_empty_conv)
  qed
qed

theorem export_after_loop_witness:
  "reaches_loop demo_env demo_getenv [demo_image ''x''] True \<and>
   all_data (process_all demo_env [demo_image ''x'']) = [] \<and>
   main demo_env demo_getenv [demo_image ''x''] True
     = [St_warning ''a.png'' JSONDecodeError, St_error_no_data] \<and>
   \<not> list_ex is_download (main demo_env demo_getenv [demo_image ''x''] True) \<and>
   \<not> reaches_loop demo_env Map.empty [demo_image ''x''] True \<and>
   \<not> list_ex is_download (main demo_env Map.empty [demo_image ''x''] True)"
proof -
  have loop: "reaches_loop demo_env demo_getenv [demo_image ''x''] True"
    by (simp add: demo_reaches_loop)
  have empty: "all_data (process_all demo_env [demo_image ''x'']) = []"
    by (simp add: demo_undecodable)
  have no_key: "\<not> reaches_loop demo_env Map.empty [demo_image ''x''] True"
    by (simp add: reaches_loop_def api_key_def py_or_def)
  from export_after_loop [of demo_env demo_getenv "[demo_image ''x'']" True] loop empty
  have "main demo_env demo_getenv [demo_image ''x''] True
      = ui (process_all demo_env [demo_image ''x'']) @ [St_error_no_data]"
    and "\<not> list_ex is_download (main demo_env demo_getenv [demo_image ''x''] True)"
    by blast+
  moreover from export_after_loop [of demo_env Map.empty "[demo_image ''x'']" True] no_key
  have "\<not> list_ex is_download (main demo_env Map.empty [demo_image ''x''] True)"
    by blast
  ultimately show ?thesis
    using loop empty no_key by (simp add: demo_undecodable)
qed

text \<open>
  C4. Flattening the entry
  \<^verbatim>\<open>{"EstablishmentType":"Hostel","HostelName":"X","LocationDetails":{"Landmark1":"A","Landmark2":""},"KeyService":"WiFi","AccommodationOptions":"Dorm","ContactNumbers":["111","222"]}\<close>
  gives the flat record whose values are, in column order,
  \<^verbatim>\<open>("Hostel","X","A","","WiFi","Dorm","111, 222")\<close>.
\<close>

theorem flat_data_example:
  "flat_data (JObj [(''EstablishmentType'', JStr ''Hostel''),
                    (''HostelName'', JStr ''X''),
                    (''LocationDetails'', JObj [(''Landmark1'', JStr ''A''), (''Landmark2'', JStr '''')]),
                    (''KeyService'', JStr ''WiFi''),
                    (''AccommodationOptions'', JStr ''Dorm''),
                    (''ContactNumbers'', JArr [JStr ''111'', JStr ''222''])])
   = Inr [(''EstablishmentType'', JStr ''Hostel''),
          (''HostelName'', JStr ''X''),
          (''Landmark1'', JStr ''A''),
          (''Landmark2'', JStr ''''),
          (''KeyService'', JStr ''WiFi''),
          (''AccommodationOptions'', JStr ''Dorm''),
          (''ContactNumbers'', JStr ''111, 222'')]"
  by (simp add: flat_data_def)

text \<open>
  C5. A response whose parsed value is the single object \<open>o\<close> and a response whose
  parsed value is the one-element array \<open>[o]\<close> give the same result of the \<^verbatim>\<open>try\<close>
  body on the same table: the same sequence of flat records appended (the record of
  \<open>o\<close>, with one hostel reported), or the same exception with nothing appended.
\<close>

theorem single_object_as_one_element_array:
  assumes "response_text env idx1 up1 = Inr (Some t1)"
    and "json_loads env (clean_text t1) = Inr (JObj kvs)"
    and "response_text env idx2 up2 = Inr (Some t2)"
    and "json_loads env (clean_text t2) = Inr (JArr [JObj kvs])"
  shows "try_body env idx1 up1 table = try_body env idx2 up2 table \<and>
    try_body env idx1 up1 table
      = (case flat_data (JObj kvs) of
           Inl e \<Rightarrow> (Inl e, table)
         | Inr r \<Rightarrow> (Inr 1, table @ [r]))"
  using try_body_parsed [OF assms(1,2)] try_body_parsed [OF assms(3,4)]
  by (simp only: flatten_single_object simp_thms)

theorem single_object_as_one_element_array_witness:
  "try_body demo_env 1 (demo_image ''{}'') [] = try_body demo_env 2 (demo_image ''[{}]'') [] \<and>
   try_body demo_env 1 (demo_image ''{}'') [] = (Inr 1, [empty_row])"
proof -
  have object: "json_loads demo_env (clean_text ''{}'') = Inr (JObj [])"
    by (simp add: demo_json_loads clean_text_demo demo_loads_def form_feed_text_def)
  have array: "json_loads demo_env (clean_text ''[{}]'') = Inr (JArr [JObj []])"
    by (simp add: demo_json_loads clean_text_demo demo_loads_def form_feed_text_def)
  from single_object_as_one_element_array
    [OF demo_response object demo_response array, of 1 "[]" 2]
  show ?thesis
    unfolding flat_data_empty by auto
qed

text \<open>
  C6 (as amended). For every parsed entry in which the key \<^verbatim>\<open>ContactNumbers\<close> is
  absent and whose \<^verbatim>\<open>LocationDetails\<close> is absent or a mapping, flattening succeeds and
  the \<^verbatim>\<open>ContactNumbers\<close> column of the resulting record is the empty string; for such
  an entry an empty contact-number sequence also yields the empty string and a sequence
  of strings is joined with \<^verbatim>\<open>", "\<close>.
\<close>

theorem missing_contact_numbers:
  assumes "location_is_mapping kvs"
  shows "(map_of kvs ''ContactNumbers'' = None \<longrightarrow>
            contact_column (JObj kvs) = Inr (Some (JStr []))) \<and>
         (map_of kvs ''ContactNumbers'' = Some (JArr []) \<longrightarrow>
            contact_column (JObj kvs) = Inr (Some (JStr []))) \<and>
         (map_of kvs ''ContactNumbers'' = Some (JArr (map JStr ss)) \<longrightarrow>
            contact_column (JObj kvs) = Inr (Some (JStr (join '', '' ss))))"
  by (simp add: contact_column_eq [OF assms] str_items_strs)

theorem missing_contact_numbers_witness:
  "contact_column (JObj [(''HostelName'', JStr ''X'')]) = Inr (Some (JStr [])) \<and>
   contact_column (JObj [(''ContactNumbers'', JArr [])]) = Inr (Some (JStr [])) \<and>
   contact_column (JObj [(''ContactNumbers'', JArr (map JStr [''111'', ''222'']))])
     = Inr (Some (JStr ''111, 222''))"
  using missing_contact_numbers [of "[(''HostelName'', JStr ''X'')]" "[]"]
    missing_contact_numbers [of "[(''ContactNumbers'', JArr [])]" "[]"]
    missing_contact_numbers [of "[(''ContactNumbers'', JArr (map JStr [''111'', ''222'']))]"
      "[''111'', ''222'']"]
  by (simp add: location_is_mapping_def)

text \<open>
  Counterexample to C6 as first stated: without the condition on \<^verbatim>\<open>LocationDetails\<close>
  flattening can fail although
  \<^verbatim>\<open>ContactNumbers\<close> is absent: for the entry \<^verbatim>\<open>{"LocationDetails": null}\<close> line 88
  calls \<^verbatim>\<open>get\<close> on \<^verbatim>\<open>None\<close>.
\<close>

theorem missing_contact_numbers_counterexample:
  "map_of [(''LocationDetails'', JNull)] ''ContactNumbers'' = None \<and>
   flat_data (JObj [(''LocationDetails'', JNull)]) = Inl AttributeError"
  by (simp add: flat_data_def)

text \<open>
  C7. For every assignment of the environment variables, if some variable in the order
  \<^verbatim>\<open>GENAI_API_KEY\<close>, \<^verbatim>\<open>GEMINI_API_KEY\<close>, \<^verbatim>\<open>GOOGLE_API_KEY\<close>, \<^verbatim>\<open>API_KEY\<close> has a non-empty
  value, the API key is the value of the first such variable; if all are unset or empty,
  the key is \<^verbatim>\<open>None\<close> or the empty string, which line 56 treats as absent: the script
  only shows the hint to upload images.
\<close>

theorem api_key_precedence:
  "(case first_nonempty getenv of
      Some v \<Rightarrow> v \<noteq> [] \<and> api_key getenv = Some v
    | None \<Rightarrow> \<not> truthy (api_key getenv) \<and> main env getenv uploaded_images button = [St_info])"
proof -
  have cases: "truthy x \<or> x = None \<or> x = Some []" for x
    by (cases x) auto
  show ?thesis
    using cases [of "getenv ''GENAI_API_KEY''"] cases [of "getenv ''GEMINI_API_KEY''"]
      cases [of "getenv ''GOOGLE_API_KEY''"] cases [of "getenv ''API_KEY''"]
    by (auto simp: first_nonempty_def key_precedence_def api_key_def py_or_def main_def
          split: option.splits elim!: truthy.elims)
qed

theorem api_key_precedence_witness:
  "first_nonempty demo_getenv = Some ''k2'' \<and> api_key demo_getenv = Some ''k2'' \<and>
   first_nonempty Map.empty = None \<and> api_key Map.empty = None \<and>
   main demo_env Map.empty [demo_image ''{}''] True = [St_info]"
  using api_key_precedence [of demo_getenv demo_env "[]" True]
    api_key_precedence [of Map.empty demo_env "[demo_image ''{}'']" True]
  by (simp add: first_nonempty_def key_precedence_def demo_getenv_def api_key_def py_or_def)




text \<open>
  C9 (as amended). For every parsed entry whose \<^verbatim>\<open>ContactNumbers\<close> value is a bare
  string \<open>s\<close> and whose \<^verbatim>\<open>LocationDetails\<close> is absent or a mapping, flattening does not
  fail and fills the \<^verbatim>\<open>ContactNumbers\<close> column with the individual characters of \<open>s\<close>
  joined by \<^verbatim>\<open>", "\<close>; for instance \<^verbatim>\<open>"123"\<close> becomes \<^verbatim>\<open>"1, 2, 3"\<close>.
\<close>

theorem contact_numbers_bare_string:
  assumes "location_is_mapping kvs" and "map_of kvs ''ContactNumbers'' = Some (JStr s)"
  shows "contact_column (JObj kvs) = Inr (Some (JStr (join '', '' (map (\<lambda>c. [c]) s))))"
  by (simp add: contact_column_eq [OF assms(1)] assms(2))

theorem contact_numbers_bare_string_witness:
  "contact_column (JObj [(''ContactNumbers'', JStr ''123'')]) = Inr (Some (JStr ''1, 2, 3''))"
  using contact_numbers_bare_string [of "[(''ContactNumbers'', JStr ''123'')]" "''123''"]
  by (simp add: location_is_mapping_def)

text \<open>
  Counterexample to C9 as first stated: without the condition on \<^verbatim>\<open>LocationDetails\<close>
  flattening can fail for such an entry:
  \<^verbatim>\<open>{"LocationDetails": null, "ContactNumbers": "123"}\<close> raises at line 88.
\<close>

theorem contact_numbers_bare_string_counterexample:
  "map_of [(''LocationDetails'', JNull), (''ContactNumbers'', JStr ''123'')] ''ContactNumbers''
     = Some (JStr ''123'') \<and>
   flat_data (JObj [(''LocationDetails'', JNull), (''ContactNumbers'', JStr ''123'')])
     = Inl AttributeError"
  by (simp add: flat_data_def)

text \<open>
  C10. Per-image processing is not atomic with respect to the table. Let the parsed
  value of the image \<open>up\<close>, processed at position \<open>idx\<close> after the images \<open>before\<close>, be
  a list \<open>es\<close> whose entries before position \<open>k\<close> flatten to the records \<open>rs\<close> and whose
  entry at position \<open>k\<close> raises \<open>e\<close>. Then the \<open>k\<close> records \<open>rs\<close> are in the final table,
  right behind the rows of the earlier images and before those of the later ones, and
  the message shown for the image is the warning with \<open>e\<close>.
\<close>

theorem partial_rows_remain:
  assumes "and_then (response_text env idx up) (parsed_response env) = Inr (JArr es)"
    and "idx = Suc (length before)"
    and "k < length es"
    and "map flat_data (take k es) = map Inr rs"
    and "flat_data (es ! k) = Inl e"
  shows "length rs = k \<and>
    all_data (process_all env (before @ up # after))
      = all_data (process_all env before) @ rs
          @ concat (map (rows_of env) (enumerate (Suc idx) after)) \<and>
    ui (process_all env (before @ up # after)) ! length before = St_warning (name up) e"
proof -
  have es: "es = take k es @ es ! k # drop (Suc k) es"
    using assms(3) by (simp add: id_take_nth_drop)
  have "length (map flat_data (take k es)) = length (map Inr rs :: (error + flat_record) list)"
    using assms(4) by simp
  then have len: "length rs = k"
    using assms(3) by simp
  have entries: "entries_of env (idx, up) = Inr es"
    using assms(1) by (simp add: entries_of_def)
  have "flat_prefix es = rs \<and> first_error es = Some e"
    using flat_prefix_append_error [OF assms(4,5), of "drop (Suc k) es"] es by simp
  then have rows: "rows_of env (idx, up) = rs"
    and event: "event_of env (idx, up) = St_warning (name up) e"
    using entries by (simp_all add: rows_of_def event_of_def)
  have split: "enumerate 1 (before @ up # after)
      = enumerate 1 before @ (idx, up) # enumerate (Suc idx) after"
    using assms(2) by (simp add: enumerate_middle)
  have "length (map (event_of env) (enumerate 1 before)) = length before"
    by simp
  then have "(map (event_of env) (enumerate 1 before) @ event_of env (idx, up) # tl) ! length before
      = event_of env (idx, up)" for tl
    by (metis nth_append_length)
  then show ?thesis
    unfolding process_all_eq split using len rows event by simp
qed

theorem partial_rows_remain_witness:
  "length [empty_row] = 1 \<and>
   all_data (process_all demo_env ([] @ demo_image ''[{}, 5]'' # []))
     = all_data (process_all demo_env []) @ [empty_row]
         @ concat (map (rows_of demo_env) (enumerate (Suc 1) [])) \<and>
   ui (process_all demo_env ([] @ demo_image ''[{}, 5]'' # [])) ! length ([] :: uploaded_image list)
     = St_warning (name (demo_image ''[{}, 5]'')) AttributeError"
  using partial_rows_remain [of demo_env 1 "demo_image ''[{}, 5]''" "[JObj [], JInt 5]" "[]" 1
      "[empty_row]" AttributeError "[]"]
  by (simp add: demo_parsed flat_data_empty flat_data_int)

end
